theory Spec2Isabelle
  imports Complex_Main "HOL-Library.Log_Nat"
begin

section \<open>Python floats\<close>

text \<open>
  A Python float is an IEEE 754 binary64 number: a finite value with a sign bit and a
  magnitude, an infinity with a sign, or not-a-number. The magnitude of a finite value is
  a non-negative rational (zero has a sign of its own); the values a program computes are
  those \<open>round_mag\<close> returns.
\<close>

datatype pyfloat = Finite bool rat | Infinity bool | NaN

text \<open>\<open>ilog2 q\<close> is the binary exponent of a positive rational: \<open>2 ^ e \<le> q < 2 ^ (e + 1)\<close>.\<close>

definition ilog2 :: "rat \<Rightarrow> int" where
  "ilog2 q = (let (n, d) = quotient_of q; e = bitlen n - bitlen d
              in if 2 powi e \<le> q then e else e - 1)"

text \<open>Rounding to the nearest integer, a tie to the even one.\<close>

definition round_half_even :: "rat \<Rightarrow> int" where
  "round_half_even q =
     (let f = \<lfloor>q\<rfloor>; r = q - of_int f
      in if r < 1 / 2 then f else if 1 / 2 < r then f + 1
         else if even f then f else f + 1)"

text \<open>
  The spacing of the binary64 numbers around \<open>q\<close>: 53 significant bits, and the spacing
  of the subnormal numbers below \<open>2 ^ - 1022\<close>.
\<close>

definition quantum :: "rat \<Rightarrow> rat" where
  "quantum q = 2 powi (max (ilog2 q) (- 1022) - 52)"

text \<open>The binary64 magnitude nearest to a non-negative rational (round to nearest, ties to even).\<close>

definition round_mag :: "rat \<Rightarrow> rat" where
  "round_mag q = (if q = 0 then 0 else of_int (round_half_even (q / quantum q)) * quantum q)"

text \<open>
  The largest binary64 number is \<open>2 ^ 1024 - 2 ^ 971\<close>; a magnitude from
  \<open>2 ^ 1024 - 2 ^ 970\<close> on rounds to infinity.
\<close>

definition overflow_threshold :: rat where
  "overflow_threshold = 2 ^ 1024 - 2 ^ 970"

definition float_of_mag :: "bool \<Rightarrow> rat \<Rightarrow> pyfloat" where
  "float_of_mag s q = (if q < overflow_threshold then Finite s (round_mag q) else Infinity s)"

text \<open>A float literal of the source, such as \<open>7.2\<close>: the binary64 number nearest to the decimal.\<close>

definition py_float :: "rat \<Rightarrow> pyfloat" where
  "py_float q = float_of_mag False q"

text \<open>The product of two floats (\<open>float.__mul__\<close> on two floats).\<close>

fun float_mul :: "pyfloat \<Rightarrow> pyfloat \<Rightarrow> pyfloat" where
  "float_mul NaN y = NaN"
| "float_mul x NaN = NaN"
| "float_mul (Infinity s) (Infinity t) = Infinity (s \<noteq> t)"
| "float_mul (Infinity s) (Finite t n) = (if n = 0 then NaN else Infinity (s \<noteq> t))"
| "float_mul (Finite s m) (Infinity t) = (if m = 0 then NaN else Infinity (s \<noteq> t))"
| "float_mul (Finite s m) (Finite t n) = float_of_mag (s \<noteq> t) (m * n)"

text \<open>The comparison \<open>x < 0\<close> of a float with the integer zero: false for both zeros and for NaN.\<close>

fun float_lt_zero :: "pyfloat \<Rightarrow> bool" where
  "float_lt_zero (Finite s m) = (s \<and> 0 < m)"
| "float_lt_zero (Infinity s) = s"
| "float_lt_zero NaN = False"

text \<open>The real number a finite float stands for.\<close>

fun float_val :: "pyfloat \<Rightarrow> rat" where
  "float_val (Finite s m) = (if s then - m else m)"
| "float_val (Infinity s) = 0"
| "float_val NaN = 0"

subsection \<open>Fixed-point formatting\<close>

definition digit_char :: "nat \<Rightarrow> char" where
  "digit_char d = ''0123456789'' ! d"

fun digits :: "nat \<Rightarrow> string" where
  "digits n = (if n < 10 then [digit_char n] else digits (n div 10) @ [digit_char (n mod 10)])"

declare digits.simps [simp del]

definition zero_pad :: "nat \<Rightarrow> string \<Rightarrow> string" where
  "zero_pad w s = replicate (w - length s) (CHR ''0'') @ s"

text \<open>The thousands separator of the format option \<open>,\<close>: a comma before every group of three digits.\<close>

function group3 :: "string \<Rightarrow> string" where
  "group3 ds = (if length ds \<le> 3 then ds
                else group3 (take (length ds - 3) ds) @ '','' @ drop (length ds - 3) ds)"
  by pat_completeness auto
termination
  by (relation "measure length") auto

declare group3.simps [simp del]

text \<open>
  The digits of a magnitude rounded to \<open>p\<close> decimals, ties to even, with the commas of
  the format option \<open>,\<close> when \<open>grouping\<close> is set.
\<close>

definition fixed_point :: "bool \<Rightarrow> nat \<Rightarrow> rat \<Rightarrow> string" where
  "fixed_point grouping p m =
     (let k = nat (round_half_even (m * 10 ^ p));
          whole = digits (k div 10 ^ p);
          frac = zero_pad p (digits (k mod 10 ^ p))
      in (if grouping then group3 whole else whole) @ (if p = 0 then '''' else ''.'' @ frac))"

text \<open>
  \<open>format_f grouping p x\<close> is \<open>format(x, ".pf")\<close>, and \<open>format(x, ",.pf")\<close> when
  \<open>grouping\<close> is set: the exact value of the float in fixed point, with the sign of the
  float.
\<close>

definition format_f :: "bool \<Rightarrow> nat \<Rightarrow> pyfloat \<Rightarrow> string" where
  "format_f grouping p x =
     (case x of
        NaN \<Rightarrow> ''nan''
      | Infinity s \<Rightarrow> (if s then ''-inf'' else ''inf'')
      | Finite s m \<Rightarrow> (if s then ''-'' else '''') @ fixed_point grouping p m)"

section \<open>Python values and exceptions\<close>

text \<open>
  The values \<open>json.loads\<close> returns. A dictionary is the list of its items, looked up by
  \<open>map_of\<close>; its keys are strings.
\<close>

datatype pyval =
    PNone
  | PBool bool
  | PInt int
  | PFloat pyfloat
  | PStr string
  | PList "pyval list"
  | PDict "(string \<times> pyval) list"

datatype pytype = TNone | TBool | TInt | TFloat | TStr | TList | TDict

fun type_of :: "pyval \<Rightarrow> pytype" where
  "type_of PNone = TNone"
| "type_of (PBool b) = TBool"
| "type_of (PInt i) = TInt"
| "type_of (PFloat x) = TFloat"
| "type_of (PStr s) = TStr"
| "type_of (PList xs) = TList"
| "type_of (PDict kvs) = TDict"

text \<open>
  The exceptions of class \<open>Exception\<close> the program can meet: \<open>KeyError\<close> with the missing
  key, \<open>TypeError\<close> and \<open>ValueError\<close> with the type of the operand that was refused,
  \<open>OverflowError\<close> of an integer too large for a float, and \<open>External\<close> for whatever the
  network and JSON libraries raise (URLError, a timeout, JSONDecodeError, ...), with a
  description.
\<close>

datatype exn =
    KeyError string
  | TypeError pytype
  | ValueError pytype
  | OverflowError
  | External string

text \<open>\<open>v[k]\<close> for a string \<open>k\<close>: only a dictionary can be subscripted by a string.\<close>

definition py_getitem :: "pyval \<Rightarrow> string \<Rightarrow> exn + pyval" where
  "py_getitem v k =
     (case v of
        PDict kvs \<Rightarrow> (case map_of kvs k of Some x \<Rightarrow> Inr x | None \<Rightarrow> Inl (KeyError k))
      | _ \<Rightarrow> Inl (TypeError (type_of v)))"

text \<open>The conversion of an integer to a float, rounded to nearest, as \<open>float.__mul__\<close> does it.\<close>

definition int_to_float :: "int \<Rightarrow> exn + pyfloat" where
  "int_to_float i =
     (if \<bar>of_int i\<bar> < overflow_threshold
      then Inr (Finite (i < 0) (round_mag \<bar>of_int i\<bar>))
      else Inl OverflowError)"

text \<open>The number a float can be multiplied by: a float, an integer or a boolean.\<close>

definition as_float :: "pyval \<Rightarrow> exn + pyfloat" where
  "as_float v =
     (case v of
        PFloat x \<Rightarrow> Inr x
      | PInt i \<Rightarrow> int_to_float i
      | PBool b \<Rightarrow> Inr (Finite False (if b then 1 else 0))
      | _ \<Rightarrow> Inl (TypeError (type_of v)))"

text \<open>\<open>x * v\<close> for a float \<open>x\<close>.\<close>

definition py_mul :: "pyfloat \<Rightarrow> pyval \<Rightarrow> exn + pyfloat" where
  "py_mul x v = (case as_float v of Inl e \<Rightarrow> Inl e | Inr y \<Rightarrow> Inr (float_mul x y))"

text \<open>\<open>format(v, ".pf")\<close>: numbers are formatted as floats, a string refuses the format code.\<close>

definition py_format_f :: "nat \<Rightarrow> pyval \<Rightarrow> exn + string" where
  "py_format_f p v =
     (case v of
        PStr s \<Rightarrow> Inl (ValueError TStr)
      | _ \<Rightarrow> (case as_float v of Inl e \<Rightarrow> Inl e | Inr x \<Rightarrow> Inr (format_f False p x)))"

section \<open>The world outside the program\<close>

text \<open>
  What the program calls and does not define:
  \<^item> \<open>http_get url\<close>: \<open>urlopen(url, timeout=5, context=ctx)\<close> followed by
    \<open>response.read().decode()\<close>, the body of the response or the exception raised;
  \<^item> \<open>json_loads\<close>: \<open>json.loads\<close>;
  \<^item> \<open>str_exn\<close>: the text \<open>{e}\<close> of an exception in an f-string;
  \<^item> \<open>str_float\<close>: the text \<open>{x}\<close> of a float in an f-string (its \<open>repr\<close>).
  The SSL context of lines 33 to 35 is built outside the \<open>try\<close> and is taken to
  succeed. Exceptions outside the class \<open>Exception\<close> (KeyboardInterrupt, SystemExit)
  are not modelled.
\<close>

record runtime =
  http_get :: "string \<Rightarrow> exn + string"
  json_loads :: "string \<Rightarrow> exn + pyval"
  str_exn :: "exn \<Rightarrow> string"
  str_float :: "pyfloat \<Rightarrow> string"

section \<open>The texts of the program\<close>

text \<open>
  Strings are byte lists in UTF-8: the program only concatenates and compares them. Each
  text of the source outside ASCII is written out with its code points.
\<close>

text \<open>The page title (line 54), in English: USD exchange rate conversion tool. Code points: U+7F8E
  U+5143 U+6C47 U+7387 U+8F6C U+6362 U+5DE5 U+5177.\<close>

definition page_title :: string where
  "page_title =
     [CHR 0xE7, CHR 0xBE, CHR 0x8E, CHR 0xE5, CHR 0x85, CHR 0x83, CHR 0xE6, CHR 0xB1,
      CHR 0x87, CHR 0xE7, CHR 0x8E, CHR 0x87, CHR 0xE8, CHR 0xBD, CHR 0xAC, CHR 0xE6,
      CHR 0x8D, CHR 0xA2, CHR 0xE5, CHR 0xB7, CHR 0xA5, CHR 0xE5, CHR 0x85, CHR 0xB7]"

text \<open>The page icon (line 54), the currency exchange emoji. Code points: U+1F4B1.\<close>

definition page_icon :: string where
  "page_icon =
     [CHR 0xF0, CHR 0x9F, CHR 0x92, CHR 0xB1]"

text \<open>The heading (line 57). Code points: U+1F4B1 " " U+7F8E U+5143 U+6C47 U+7387 U+8F6C U+6362
  U+5DE5 U+5177.\<close>

definition title_text :: string where
  "title_text =
     [CHR 0xF0, CHR 0x9F, CHR 0x92, CHR 0xB1] @ '' '' @ [CHR 0xE7, CHR 0xBE, CHR 0x8E,
      CHR 0xE5, CHR 0x85, CHR 0x83, CHR 0xE6, CHR 0xB1, CHR 0x87, CHR 0xE7, CHR 0x8E,
      CHR 0x87, CHR 0xE8, CHR 0xBD, CHR 0xAC, CHR 0xE6, CHR 0x8D, CHR 0xA2, CHR 0xE5,
      CHR 0xB7, CHR 0xA5, CHR 0xE5, CHR 0x85, CHR 0xB7]"

text \<open>The instructions under the heading (line 58). Code points: U+8BF7 U+8F93 U+5165 U+7F8E
  U+5143 U+91D1 U+989D U+FF0C U+9009 U+62E9 U+76EE U+6807 U+8D27 U+5E01 U+FF0C U+7A0B U+5E8F
  U+4F1A U+83B7 U+53D6 U+5B9E U+65F6 U+6C47 U+7387 U+5E76 U+8F6C U+6362 U+3002.\<close>

definition intro_text :: string where
  "intro_text =
     [CHR 0xE8, CHR 0xAF, CHR 0xB7, CHR 0xE8, CHR 0xBE, CHR 0x93, CHR 0xE5, CHR 0x85,
      CHR 0xA5, CHR 0xE7, CHR 0xBE, CHR 0x8E, CHR 0xE5, CHR 0x85, CHR 0x83, CHR 0xE9,
      CHR 0x87, CHR 0x91, CHR 0xE9, CHR 0xA2, CHR 0x9D, CHR 0xEF, CHR 0xBC, CHR 0x8C,
      CHR 0xE9, CHR 0x80, CHR 0x89, CHR 0xE6, CHR 0x8B, CHR 0xA9, CHR 0xE7, CHR 0x9B,
      CHR 0xAE, CHR 0xE6, CHR 0xA0, CHR 0x87, CHR 0xE8, CHR 0xB4, CHR 0xA7, CHR 0xE5,
      CHR 0xB8, CHR 0x81, CHR 0xEF, CHR 0xBC, CHR 0x8C, CHR 0xE7, CHR 0xA8, CHR 0x8B,
      CHR 0xE5, CHR 0xBA, CHR 0x8F, CHR 0xE4, CHR 0xBC, CHR 0x9A, CHR 0xE8, CHR 0x8E,
      CHR 0xB7, CHR 0xE5, CHR 0x8F, CHR 0x96, CHR 0xE5, CHR 0xAE, CHR 0x9E, CHR 0xE6,
      CHR 0x97, CHR 0xB6, CHR 0xE6, CHR 0xB1, CHR 0x87, CHR 0xE7, CHR 0x8E, CHR 0x87,
      CHR 0xE5, CHR 0xB9, CHR 0xB6, CHR 0xE8, CHR 0xBD, CHR 0xAC, CHR 0xE6, CHR 0x8D,
      CHR 0xA2, CHR 0xE3, CHR 0x80, CHR 0x82]"

text \<open>The label of the currency selector (line 62): choose the target currency. Code points:
  U+9009 U+62E9 U+76EE U+6807 U+8D27 U+5E01 U+FF1A.\<close>

definition selectbox_label :: string where
  "selectbox_label =
     [CHR 0xE9, CHR 0x80, CHR 0x89, CHR 0xE6, CHR 0x8B, CHR 0xA9, CHR 0xE7, CHR 0x9B,
      CHR 0xAE, CHR 0xE6, CHR 0xA0, CHR 0x87, CHR 0xE8, CHR 0xB4, CHR 0xA7, CHR 0xE5,
      CHR 0xB8, CHR 0x81, CHR 0xEF, CHR 0xBC, CHR 0x9A]"

text \<open>What format_func shows for CNY (line 64). Code points: U+4EBA U+6C11 U+5E01 " (CNY)".\<close>

definition label_cny :: string where
  "label_cny =
     [CHR 0xE4, CHR 0xBA, CHR 0xBA, CHR 0xE6, CHR 0xB0, CHR 0x91, CHR 0xE5, CHR 0xB8,
      CHR 0x81] @ '' (CNY)''"

text \<open>What format_func shows for every other option (line 64). Code points: U+65E5 U+5143
  " (JPY)".\<close>

definition label_jpy :: string where
  "label_jpy =
     [CHR 0xE6, CHR 0x97, CHR 0xA5, CHR 0xE5, CHR 0x85, CHR 0x83] @ '' (JPY)''"

text \<open>The label of the amount field (line 69): enter the USD amount. Code points: U+8BF7 U+8F93
  U+5165 U+7F8E U+5143 U+91D1 U+989D U+FF1A.\<close>

definition number_label :: string where
  "number_label =
     [CHR 0xE8, CHR 0xAF, CHR 0xB7, CHR 0xE8, CHR 0xBE, CHR 0x93, CHR 0xE5, CHR 0x85,
      CHR 0xA5, CHR 0xE7, CHR 0xBE, CHR 0x8E, CHR 0xE5, CHR 0x85, CHR 0x83, CHR 0xE9,
      CHR 0x87, CHR 0x91, CHR 0xE9, CHR 0xA2, CHR 0x9D, CHR 0xEF, CHR 0xBC, CHR 0x9A]"

text \<open>The validation error (line 77): negative numbers are not allowed. Code points: U+274C " "
  U+9519 U+8BEF U+FF1A U+4E0D U+80FD U+8F93 U+5165 U+8D1F U+6570 U+FF01 U+8BF7 U+8F93 U+5165
  U+5927 U+4E8E U+7B49 U+4E8E " 0 " U+7684 U+91D1 U+989D U+3002.\<close>

definition negative_error :: string where
  "negative_error =
     [CHR 0xE2, CHR 0x9D, CHR 0x8C] @ '' '' @ [CHR 0xE9, CHR 0x94, CHR 0x99, CHR 0xE8,
      CHR 0xAF, CHR 0xAF, CHR 0xEF, CHR 0xBC, CHR 0x9A, CHR 0xE4, CHR 0xB8, CHR 0x8D,
      CHR 0xE8, CHR 0x83, CHR 0xBD, CHR 0xE8, CHR 0xBE, CHR 0x93, CHR 0xE5, CHR 0x85,
      CHR 0xA5, CHR 0xE8, CHR 0xB4, CHR 0x9F, CHR 0xE6, CHR 0x95, CHR 0xB0, CHR 0xEF,
      CHR 0xBC, CHR 0x81, CHR 0xE8, CHR 0xAF, CHR 0xB7, CHR 0xE8, CHR 0xBE, CHR 0x93,
      CHR 0xE5, CHR 0x85, CHR 0xA5, CHR 0xE5, CHR 0xA4, CHR 0xA7, CHR 0xE4, CHR 0xBA,
      CHR 0x8E, CHR 0xE7, CHR 0xAD, CHR 0x89, CHR 0xE4, CHR 0xBA, CHR 0x8E] @ '' 0 '' @
      [CHR 0xE7, CHR 0x9A, CHR 0x84, CHR 0xE9, CHR 0x87, CHR 0x91, CHR 0xE9, CHR 0xA2,
      CHR 0x9D, CHR 0xE3, CHR 0x80, CHR 0x82]"

text \<open>The label of the button (line 81): start conversion. Code points: U+5F00 U+59CB U+8F6C
  U+6362.\<close>

definition button_label :: string where
  "button_label =
     [CHR 0xE5, CHR 0xBC, CHR 0x80, CHR 0xE5, CHR 0xA7, CHR 0x8B, CHR 0xE8, CHR 0xBD,
      CHR 0xAC, CHR 0xE6, CHR 0x8D, CHR 0xA2]"

text \<open>The text of the spinner (line 82). Code points: U+6B63 U+5728 U+83B7 U+53D6 U+5B9E U+65F6
  U+6C47 U+7387 U+FF0C U+8BF7 U+7A0D U+5019 "...".\<close>

definition spinner_text :: string where
  "spinner_text =
     [CHR 0xE6, CHR 0xAD, CHR 0xA3, CHR 0xE5, CHR 0x9C, CHR 0xA8, CHR 0xE8, CHR 0x8E,
      CHR 0xB7, CHR 0xE5, CHR 0x8F, CHR 0x96, CHR 0xE5, CHR 0xAE, CHR 0x9E, CHR 0xE6,
      CHR 0x97, CHR 0xB6, CHR 0xE6, CHR 0xB1, CHR 0x87, CHR 0xE7, CHR 0x8E, CHR 0x87,
      CHR 0xEF, CHR 0xBC, CHR 0x8C, CHR 0xE8, CHR 0xAF, CHR 0xB7, CHR 0xE7, CHR 0xA8,
      CHR 0x8D, CHR 0xE5, CHR 0x80, CHR 0x99] @ ''...''"

text \<open>The f-string of line 49 up to the exception: fetching the live rate failed. Code points:
  U+83B7 U+53D6 U+5B9E U+65F6 U+6C47 U+7387 U+5931 U+8D25 U+FF1A.\<close>

definition fail_prefix :: string where
  "fail_prefix =
     [CHR 0xE8, CHR 0x8E, CHR 0xB7, CHR 0xE5, CHR 0x8F, CHR 0x96, CHR 0xE5, CHR 0xAE,
      CHR 0x9E, CHR 0xE6, CHR 0x97, CHR 0xB6, CHR 0xE6, CHR 0xB1, CHR 0x87, CHR 0xE7,
      CHR 0x8E, CHR 0x87, CHR 0xE5, CHR 0xA4, CHR 0xB1, CHR 0xE8, CHR 0xB4, CHR 0xA5,
      CHR 0xEF, CHR 0xBC, CHR 0x9A]"

text \<open>The f-string of line 49 between the exception and the default rate: the default rate was
  used. Code points: U+FF08 U+5DF2 U+4F7F U+7528 U+9ED8 U+8BA4 U+6C47 U+7387 " ".\<close>

definition fail_middle :: string where
  "fail_middle =
     [CHR 0xEF, CHR 0xBC, CHR 0x88, CHR 0xE5, CHR 0xB7, CHR 0xB2, CHR 0xE4, CHR 0xBD,
      CHR 0xBF, CHR 0xE7, CHR 0x94, CHR 0xA8, CHR 0xE9, CHR 0xBB, CHR 0x98, CHR 0xE8,
      CHR 0xAE, CHR 0xA4, CHR 0xE6, CHR 0xB1, CHR 0x87, CHR 0xE7, CHR 0x8E, CHR 0x87] @ '' ''"

text \<open>The end of the f-string of line 49: for reference only. Code points: U+FF0C U+4EC5 U+4F9B
  U+53C2 U+8003 U+FF09.\<close>

definition fail_suffix :: string where
  "fail_suffix =
     [CHR 0xEF, CHR 0xBC, CHR 0x8C, CHR 0xE4, CHR 0xBB, CHR 0x85, CHR 0xE4, CHR 0xBE,
      CHR 0x9B, CHR 0xE5, CHR 0x8F, CHR 0x82, CHR 0xE8, CHR 0x80, CHR 0x83, CHR 0xEF,
      CHR 0xBC, CHR 0x89]"

text \<open>The success message (line 102): conversion done. Code points: U+8F6C U+6362 U+5B8C U+6210
  U+FF01.\<close>

definition success_text :: string where
  "success_text =
     [CHR 0xE8, CHR 0xBD, CHR 0xAC, CHR 0xE6, CHR 0x8D, CHR 0xA2, CHR 0xE5, CHR 0xAE,
      CHR 0x8C, CHR 0xE6, CHR 0x88, CHR 0x90, CHR 0xEF, CHR 0xBC, CHR 0x81]"

text \<open>The label of line 103, USD amount. Code points: "**" U+7F8E U+5143 U+91D1 U+989D U+FF1A
  "** ".\<close>

definition usd_label :: string where
  "usd_label =
     ''**'' @ [CHR 0xE7, CHR 0xBE, CHR 0x8E, CHR 0xE5, CHR 0x85, CHR 0x83, CHR 0xE9,
      CHR 0x87, CHR 0x91, CHR 0xE9, CHR 0xA2, CHR 0x9D, CHR 0xEF, CHR 0xBC, CHR 0x9A] @
      ''** ''"

text \<open>The label of line 104, current rate. Code points: "**" U+5F53 U+524D U+6C47 U+7387 U+FF1A
  "** ".\<close>

definition rate_label :: string where
  "rate_label =
     ''**'' @ [CHR 0xE5, CHR 0xBD, CHR 0x93, CHR 0xE5, CHR 0x89, CHR 0x8D, CHR 0xE6,
      CHR 0xB1, CHR 0x87, CHR 0xE7, CHR 0x8E, CHR 0x87, CHR 0xEF, CHR 0xBC, CHR 0x9A] @
      ''** ''"

text \<open>The label of line 105 after the name of the currency, amount. Code points: U+91D1
  U+989D U+FF1A "** ".\<close>

definition amount_label :: string where
  "amount_label =
     [CHR 0xE9, CHR 0x87, CHR 0x91, CHR 0xE9, CHR 0xA2, CHR 0x9D, CHR 0xEF, CHR 0xBC,
      CHR 0x9A] @ ''** ''"

text \<open>The name shown for CNY (line 94): renminbi. Code points: U+4EBA U+6C11 U+5E01.\<close>

definition name_cny :: string where
  "name_cny =
     [CHR 0xE4, CHR 0xBA, CHR 0xBA, CHR 0xE6, CHR 0xB0, CHR 0x91, CHR 0xE5, CHR 0xB8,
      CHR 0x81]"

text \<open>The name shown for JPY (line 95): Japanese yen. Code points: U+65E5 U+5143.\<close>

definition name_jpy :: string where
  "name_jpy =
     [CHR 0xE6, CHR 0x97, CHR 0xA5, CHR 0xE5, CHR 0x85, CHR 0x83]"

text \<open>The symbol of both currencies (lines 94 and 95), the yen sign. Code points: U+00A5.\<close>

definition yen_sign :: string where
  "yen_sign =
     [CHR 0xC2, CHR 0xA5]"

section \<open>The rate lookup: \<open>get_exchange_rate\<close>\<close>

text \<open>What the page shows and what the program sends, in the order it happens.\<close>

datatype event =
    SetPageConfig string string
  | Title string
  | Write string
  | Selectbox string "(string \<times> string) list"
  | NumberInput string pyfloat pyfloat string
  | ErrorBox string
  | Button string
  | Spinner string
  | UrlOpen string
  | Warning string
  | Success string

text \<open>Line 39: the address of the request.\<close>

definition rate_url :: "string \<Rightarrow> string" where
  "rate_url target_currency =
     ''https://api.exchangerate.host/latest?base=USD&symbols='' @ target_currency"

text \<open>Lines 26 to 29: the default rates.\<close>

definition default_rates :: "string \<Rightarrow> pyfloat option" where
  "default_rates = [''CNY'' \<mapsto> py_float (36 / 5), ''JPY'' \<mapsto> py_float 150]"

text \<open>Lines 39 to 45, the body of the \<open>try\<close>: the rate, or the exception raised.\<close>

definition fetch_rate :: "runtime \<Rightarrow> string \<Rightarrow> exn + pyval" where
  "fetch_rate rt target_currency =
     (case http_get rt (rate_url target_currency) of
        Inl e \<Rightarrow> Inl e
      | Inr body \<Rightarrow>
          (case json_loads rt body of
             Inl e \<Rightarrow> Inl e
           | Inr data \<Rightarrow>
               (case py_getitem data ''rates'' of
                  Inl e \<Rightarrow> Inl e
                | Inr rates \<Rightarrow> py_getitem rates target_currency)))"

text \<open>
  The function returns the request it sent, the rate and the error message (\<open>None\<close> when
  there is none). Lines 46 to 49 catch every exception of the \<open>try\<close>.
\<close>

definition get_exchange_rate :: "runtime \<Rightarrow> string \<Rightarrow> event list \<times> pyval \<times> string option" where
  "get_exchange_rate rt target_currency =
     (case fetch_rate rt target_currency of
        Inr rate \<Rightarrow> ([UrlOpen (rate_url target_currency)], rate, None)
      | Inl e \<Rightarrow>
          (let default_rate =
                 (case default_rates target_currency of Some r \<Rightarrow> r | None \<Rightarrow> py_float 1)
           in ([UrlOpen (rate_url target_currency)], PFloat default_rate,
               Some (fail_prefix @ str_exn rt e @ fail_middle @ str_float rt default_rate
                     @ fail_suffix))))"

section \<open>The page: \<open>main\<close>\<close>

text \<open>Lines 61 to 65: the options of the selector and their labels.\<close>

definition currency_options :: "string list" where
  "currency_options = [''CNY'', ''JPY'']"

definition format_func :: "string \<Rightarrow> string" where
  "format_func x = (if x = ''CNY'' then label_cny else label_jpy)"

text \<open>Lines 93 to 96: the symbol and the name of each currency.\<close>

definition currency_info :: "string \<Rightarrow> (string \<Rightarrow> string option) option" where
  "currency_info =
     [''CNY'' \<mapsto> [''symbol'' \<mapsto> yen_sign, ''name'' \<mapsto> name_cny],
      ''JPY'' \<mapsto> [''symbol'' \<mapsto> yen_sign, ''name'' \<mapsto> name_jpy]]"

text \<open>
  What the user did before this run of the script: the option chosen in the selector (its
  index), the amount in the number field, and whether the button was clicked.
\<close>

record inputs =
  selected :: nat
  amount :: pyfloat
  clicked :: bool

text \<open>
  \<open>st.selectbox\<close> returns one of its options: the one chosen, the first one when nothing
  was chosen.
\<close>

definition selectbox :: "string list \<Rightarrow> nat \<Rightarrow> string" where
  "selectbox opts i = opts ! (if i < length opts then i else 0)"

text \<open>Lines 54 to 73: what every run shows first.\<close>

definition page_widgets :: "event list" where
  "page_widgets =
     [SetPageConfig page_title page_icon,
      Title title_text,
      Write intro_text,
      Selectbox selectbox_label (map (\<lambda>x. (x, format_func x)) currency_options),
      NumberInput number_label (py_float 100) (py_float 1) ''%.2f'']"

text \<open>
  Lines 82 to 105, the body of \<open>if st.button(...)\<close>: what is shown, and the exception that
  ended the run if one was raised. Nothing catches an exception here.
\<close>

definition convert :: "runtime \<Rightarrow> string \<Rightarrow> pyfloat \<Rightarrow> event list \<times> exn option" where
  "convert rt target_currency usd_amount =
     (case get_exchange_rate rt target_currency of
        (sent, rate, error_msg) \<Rightarrow>
          (let shown = [Spinner spinner_text] @ sent
                 @ (case error_msg of
                      None \<Rightarrow> []
                    | Some m \<Rightarrow> if m = [] then [] else [Warning m])
           in case py_mul usd_amount rate of
                Inl e \<Rightarrow> (shown, Some e)
              | Inr converted_amount \<Rightarrow>
                  (case currency_info target_currency of
                     None \<Rightarrow> (shown, Some (KeyError target_currency))
                   | Some info \<Rightarrow>
                       (case info ''symbol'' of
                          None \<Rightarrow> (shown, Some (KeyError ''symbol''))
                        | Some currency_symbol \<Rightarrow>
                            (case info ''name'' of
                               None \<Rightarrow> (shown, Some (KeyError ''name''))
                             | Some currency_name \<Rightarrow>
                                 (case py_format_f 4 rate of
                                    Inl e \<Rightarrow>
                                      (shown @ [Success success_text,
                                                Write (usd_label @ ''$'' @ format_f False 2 usd_amount)],
                                       Some e)
                                  | Inr rate_text \<Rightarrow>
                                      (shown @ [Success success_text,
                                                Write (usd_label @ ''$'' @ format_f False 2 usd_amount),
                                                Write (rate_label @ ''1 USD = '' @ rate_text @ '' ''
                                                       @ target_currency),
                                                Write (''**'' @ currency_name @ amount_label
                                                       @ currency_symbol
                                                       @ format_f True 2 converted_amount)],
                                       None)))))))"

text \<open>Lines 52 to 105: one run of the script.\<close>

definition main :: "runtime \<Rightarrow> inputs \<Rightarrow> event list \<times> exn option" where
  "main rt inp =
     (let target_currency = selectbox currency_options (selected inp);
          usd_amount = amount inp
      in if float_lt_zero usd_amount
         then (page_widgets @ [ErrorBox negative_error], None)
         else if clicked inp
         then (case convert rt target_currency usd_amount of
                 (shown, raised) \<Rightarrow> (page_widgets @ [Button button_label] @ shown, raised))
         else (page_widgets @ [Button button_label], None))"

section \<open>The words of the specification\<close>

text \<open>
  The failures of the live lookup the specification lists: a network error or a timeout,
  a body that is not JSON, a body without \<open>rates\<close>, and rates without the requested
  currency. \<open>e\<close> is the exception the \<open>try\<close> meets.
\<close>

inductive lookup_fails :: "runtime \<Rightarrow> string \<Rightarrow> exn \<Rightarrow> bool" for rt target_currency where
  network_failure:
    "http_get rt (rate_url target_currency) = Inl e \<Longrightarrow> lookup_fails rt target_currency e"
| malformed_json:
    "http_get rt (rate_url target_currency) = Inr body \<Longrightarrow> json_loads rt body = Inl e
     \<Longrightarrow> lookup_fails rt target_currency e"
| missing_rates:
    "http_get rt (rate_url target_currency) = Inr body \<Longrightarrow> json_loads rt body = Inr data
     \<Longrightarrow> py_getitem data ''rates'' = Inl e \<Longrightarrow> lookup_fails rt target_currency e"
| missing_currency:
    "http_get rt (rate_url target_currency) = Inr body \<Longrightarrow> json_loads rt body = Inr data
     \<Longrightarrow> py_getitem data ''rates'' = Inr rates \<Longrightarrow> py_getitem rates target_currency = Inl e
     \<Longrightarrow> lookup_fails rt target_currency e"

code_pred lookup_fails .

text \<open>
  A float is within the relative tolerance \<open>1e-9\<close> of a number: it is finite and differs
  from the number by at most the number's billionth.
\<close>

definition within_rel_tol :: "pyfloat \<Rightarrow> rat \<Rightarrow> bool" where
  "within_rel_tol c x =
     (case c of Finite s m \<Rightarrow> \<bar>float_val c - x\<bar> \<le> \<bar>x\<bar> / 10 ^ 9 | _ \<Rightarrow> False)"

text \<open>A parsed body of the shape \<open>{"rates": {"<CODE>": <float>}}\<close> for the currency.\<close>

definition float_rate_shape :: "pyval \<Rightarrow> string \<Rightarrow> bool" where
  "float_rate_shape data target_currency =
     (case data of
        PDict kvs \<Rightarrow>
          (case map_of kvs ''rates'' of
             Some (PDict rate_kvs) \<Rightarrow>
               (case map_of rate_kvs target_currency of Some (PFloat x) \<Rightarrow> True | _ \<Rightarrow> False)
           | _ \<Rightarrow> False)
      | _ \<Rightarrow> False)"

text \<open>A strictly positive rate: a number above zero.\<close>

fun positive_rate :: "pyval \<Rightarrow> bool" where
  "positive_rate (PFloat (Finite s m)) = (\<not> s \<and> 0 < m)"
| "positive_rate (PFloat (Infinity s)) = (\<not> s)"
| "positive_rate (PFloat NaN) = False"
| "positive_rate (PInt i) = (0 < i)"
| "positive_rate (PBool b) = b"
| "positive_rate v = False"

section \<open>Two runtimes for the examples\<close>

text \<open>
  The texts of an example runtime: the description of an external exception, the quoted
  key of a \<open>KeyError\<close>, and the \<open>repr\<close> of the three default rates, the only floats
  line 49 formats.
\<close>

definition example_str_exn :: "exn \<Rightarrow> string" where
  "example_str_exn e =
     (case e of
        External m \<Rightarrow> m
      | KeyError k \<Rightarrow> [CHR 0x27] @ k @ [CHR 0x27]
      | TypeError t \<Rightarrow> ''TypeError''
      | ValueError t \<Rightarrow> ''ValueError''
      | OverflowError \<Rightarrow> ''int too large to convert to float'')"

definition example_str_float :: "pyfloat \<Rightarrow> string" where
  "example_str_float x =
     (if x = py_float (36 / 5) then ''7.2''
      else if x = py_float 150 then ''150.0''
      else if x = py_float 1 then ''1.0''
      else ''?'')"

text \<open>A runtime whose network is down: every request times out.\<close>

definition runtime_offline :: runtime where
  "runtime_offline =
     \<lparr>http_get = (\<lambda>url. Inl (External ''timed out'')),
      json_loads = (\<lambda>body. Inl (External ''Expecting value'')),
      str_exn = example_str_exn,
      str_float = example_str_float\<rparr>"

text \<open>A runtime whose service answers every request with a body that parses to \<open>data\<close>.\<close>

definition runtime_online :: "pyval \<Rightarrow> runtime" where
  "runtime_online data =
     \<lparr>http_get = (\<lambda>url. Inr ''(body)''),
      json_loads = (\<lambda>body. Inr data),
      str_exn = example_str_exn,
      str_float = example_str_float\<rparr>"

text \<open>The parsed body \<open>{"rates": {target_currency: v}}\<close>.\<close>

definition json_rates :: "string \<Rightarrow> pyval \<Rightarrow> pyval" where
  "json_rates target_currency v = PDict [(''rates'', PDict [(target_currency, v)])]"

text \<open>The float \<open>2.0 ** 1023\<close>, about \<open>8.99e307\<close>, as an amount.\<close>

definition huge_amount :: pyfloat where
  "huge_amount = Finite False (2 ^ 1023)"

section \<open>Facts about the float model\<close>

subsection \<open>The binary exponent and the rounding\<close>

lemma p2_nat: "0 \<le> k \<Longrightarrow> (2::rat) ^ nat k = 2 powi k"
  by (simp add: power_int_def)

lemma ilog2_aux_up:
  fixes n d :: int
  assumes "n < 2 ^ nat bn" "2 ^ nat (bd - 1) \<le> d" "0 < n" "0 < d" "1 \<le> bn" "1 \<le> bd"
  shows "(of_int n / of_int d :: rat) < 2 powi (bn - bd + 1)"
proof -
  have a: "(of_int n :: rat) < 2 powi bn"
    using assms(1,5) of_int_less_iff [of n "2 ^ nat bn", where ?'a = rat] by (simp add: p2_nat)
  have b: "(2 :: rat) powi (bd - 1) \<le> of_int d"
    using assms(2,6) of_int_le_iff [of "2 ^ nat (bd - 1)" d, where ?'a = rat] by (simp add: p2_nat)
  have "(of_int n / of_int d :: rat) < 2 powi bn / 2 powi (bd - 1)"
    using a b assms(3,4) by (intro frac_less) auto
  also have "\<dots> = 2 powi (bn - (bd - 1))"
    by (simp add: power_int_diff)
  finally show ?thesis by (simp add: algebra_simps)
qed

lemma ilog2_aux_lo:
  fixes n d :: int
  assumes "2 ^ nat (bn - 1) \<le> n" "d < 2 ^ nat bd" "0 < n" "0 < d" "1 \<le> bn" "1 \<le> bd"
  shows "2 powi (bn - bd - 1) < (of_int n / of_int d :: rat)"
proof -
  have a: "(2 :: rat) powi (bn - 1) \<le> of_int n"
    using assms(1,5) of_int_le_iff [of "2 ^ nat (bn - 1)" n, where ?'a = rat] by (simp add: p2_nat)
  have b: "(of_int d :: rat) < 2 powi bd"
    using assms(2,6) of_int_less_iff [of d "2 ^ nat bd", where ?'a = rat] by (simp add: p2_nat)
  have "(2 :: rat) powi (bn - 1) / 2 powi bd < of_int n / of_int d"
    using a b assms(3,4) by (intro frac_less2) auto
  moreover have "(2 :: rat) powi (bn - 1) / 2 powi bd = 2 powi (bn - 1 - bd)"
    by (simp add: power_int_diff)
  ultimately show ?thesis by (simp add: algebra_simps)
qed

lemma ilog2_bounds:
  assumes "0 < q"
  shows "2 powi ilog2 q \<le> q" and "q < 2 powi (ilog2 q + 1)"
proof -
  obtain n d where nd: "quotient_of q = (n, d)" by (cases "quotient_of q")
  then have q: "q = of_int n / of_int d" and d: "0 < d"
    by (simp_all add: quotient_of_div quotient_of_denom_pos)
  from assms q d have n: "0 < n" by (simp add: zero_less_divide_iff)
  define bn where "bn = bitlen n"
  define bd where "bd = bitlen d"
  have bn: "2 ^ nat (bn - 1) \<le> n" "n < 2 ^ nat bn" using bitlen_bounds [OF n] by (simp_all add: bn_def)
  have bd: "2 ^ nat (bd - 1) \<le> d" "d < 2 ^ nat bd" using bitlen_bounds [OF d] by (simp_all add: bd_def)
  have bn1: "1 \<le> bn" using n by (simp add: bn_def bitlen_alt_def)
  have bd1: "1 \<le> bd" using d by (simp add: bd_def bitlen_alt_def)
  have up: "q < 2 powi (bn - bd + 1)" unfolding q by (rule ilog2_aux_up [OF bn(2) bd(1) n d bn1 bd1])
  have lo: "2 powi (bn - bd - 1) < q" unfolding q by (rule ilog2_aux_lo [OF bn(1) bd(2) n d bn1 bd1])
  have il: "ilog2 q = (if 2 powi (bn - bd) \<le> q then bn - bd else bn - bd - 1)"
    by (simp add: ilog2_def nd bn_def bd_def Let_def)
  show "2 powi ilog2 q \<le> q" using lo by (simp add: il)
  show "q < 2 powi (ilog2 q + 1)" using up by (auto simp add: il)
qed

lemma ilog2_unique:
  assumes "2 powi e \<le> q" "q < 2 powi (e + 1)"
  shows "ilog2 q = e"
proof -
  have q: "0 < q" using assms(1) by (rule less_le_trans [rotated]) simp
  note b = ilog2_bounds [OF q]
  have 1: "ilog2 q < e + 1"
  proof (rule ccontr)
    assume "\<not> ilog2 q < e + 1"
    then have "(2::rat) powi (e + 1) \<le> 2 powi ilog2 q" by (intro power_int_increasing) auto
    with b(1) assms(2) show False by linarith
  qed
  have 2: "e < ilog2 q + 1"
  proof (rule ccontr)
    assume "\<not> e < ilog2 q + 1"
    then have "(2::rat) powi (ilog2 q + 1) \<le> 2 powi e" by (intro power_int_increasing) auto
    with b(2) assms(1) show False by linarith
  qed
  from 1 2 show ?thesis by linarith
qed

lemma round_half_even_near: "\<bar>of_int (round_half_even q) - q\<bar> \<le> 1 / 2"
proof -
  have "of_int \<lfloor>q\<rfloor> \<le> q" "q < of_int \<lfloor>q\<rfloor> + 1" by linarith+
  then show ?thesis
    by (auto simp: round_half_even_def Let_def abs_le_iff)
qed

lemma round_half_even_unique:
  assumes "\<bar>q - of_int m\<bar> < 1 / 2"
  shows "round_half_even q = m"
proof -
  have fl: "of_int \<lfloor>q\<rfloor> \<le> q" "q < of_int \<lfloor>q\<rfloor> + 1" by linarith+
  from assms have m: "of_int m - 1 / 2 < q" "q < of_int m + 1 / 2" by linarith+
  have "\<lfloor>q\<rfloor> = m \<or> \<lfloor>q\<rfloor> = m - 1"
  proof -
    have "of_int \<lfloor>q\<rfloor> < (of_int m :: rat) + 1" using fl m by linarith
    then have "of_int \<lfloor>q\<rfloor> < (of_int (m + 1) :: rat)" by simp
    then have a: "\<lfloor>q\<rfloor> < m + 1" by (simp only: of_int_less_iff)
    have "(of_int m :: rat) - 2 < of_int \<lfloor>q\<rfloor>" using fl m by linarith
    then have "(of_int (m - 2) :: rat) < of_int \<lfloor>q\<rfloor>" by simp
    then have b: "m - 2 < \<lfloor>q\<rfloor>" by (simp only: of_int_less_iff)
    from a b show ?thesis by linarith
  qed
  then show ?thesis
  proof
    assume "\<lfloor>q\<rfloor> = m"
    then show ?thesis using m by (simp add: round_half_even_def Let_def)
  next
    assume "\<lfloor>q\<rfloor> = m - 1"
    then show ?thesis using m by (simp add: round_half_even_def Let_def)
  qed
qed

lemma quantum_eq:
  assumes "2 powi e \<le> q" "q < 2 powi (e + 1)" "- 1022 \<le> e"
  shows "quantum q = 2 powi (e - 52)"
  using assms by (simp add: quantum_def ilog2_unique max_def)

lemma round_mag_eq:
  assumes "2 powi e \<le> q" "q < 2 powi (e + 1)" "- 1022 \<le> e"
    and "\<bar>q / 2 powi (e - 52) - of_int m\<bar> < 1 / 2"
  shows "round_mag q = of_int m * 2 powi (e - 52)"
proof -
  have q: "0 < q" using assms(1) by (rule less_le_trans [rotated]) simp
  show ?thesis
    using q by (simp add: round_mag_def quantum_eq [OF assms(1-3)] round_half_even_unique [OF assms(4)])
qed

lemma round_mag_error:
  assumes "2 powi (- 1022) \<le> q"
  shows "\<bar>round_mag q - q\<bar> \<le> q / 2 ^ 53"
proof -
  have q: "0 < q" using assms by (rule less_le_trans [rotated]) simp
  define e where "e = ilog2 q"
  note b = ilog2_bounds [OF q, folded e_def]
  have e: "- 1022 \<le> e"
  proof (rule ccontr)
    assume "\<not> - 1022 \<le> e"
    then have "(2::rat) powi (e + 1) \<le> 2 powi (- 1022)" by (intro power_int_increasing) auto
    with b(2) assms show False by linarith
  qed
  define u where "u = (2::rat) powi (e - 52)"
  have u: "0 < u" by (simp add: u_def)
  have qu: "quantum q = u" using e by (simp add: quantum_def e_def [symmetric] u_def max_def)
  have "\<bar>of_int (round_half_even (q / u)) - q / u\<bar> \<le> 1 / 2" by (rule round_half_even_near)
  then have "\<bar>of_int (round_half_even (q / u)) - q / u\<bar> * u \<le> 1 / 2 * u"
    using u by (intro mult_right_mono) auto
  also have "\<bar>of_int (round_half_even (q / u)) - q / u\<bar> * u = \<bar>of_int (round_half_even (q / u)) * u - q\<bar>"
  proof -
    have "(of_int (round_half_even (q / u)) - q / u) * u = of_int (round_half_even (q / u)) * u - q"
      using u by (simp add: left_diff_distrib)
    then have "\<bar>(of_int (round_half_even (q / u)) - q / u) * u\<bar> = \<bar>of_int (round_half_even (q / u)) * u - q\<bar>"
      by simp
    then show ?thesis using u by (simp add: abs_mult)
  qed
  finally have 1: "\<bar>round_mag q - q\<bar> \<le> u / 2" using q by (simp add: round_mag_def qu)
  have "u = 2 powi e / 2 ^ 52" by (simp add: u_def power_int_diff)
  then have "u / 2 = 2 powi e / 2 ^ 53" by simp
  also have "\<dots> \<le> q / 2 ^ 53" using b(1) by (simp add: divide_right_mono)
  finally show ?thesis using 1 by linarith
qed

subsection \<open>The floats of the examples\<close>

lemma round_mag_exact:
  assumes "2 powi e \<le> q" "q < 2 powi (e + 1)" "- 1022 \<le> e"
    and "q / 2 powi (e - 52) = of_int m"
  shows "round_mag q = q"
proof -
  have "round_mag q = of_int m * 2 powi (e - 52)"
    using assms by (intro round_mag_eq) auto
  also have "\<dots> = q" using assms(4) [symmetric] by simp
  finally show ?thesis .
qed

lemma py_float_7_2: "py_float (36 / 5) = Finite False (8106479329266893 / 2 ^ 50)"
proof -
  have "round_mag (36 / 5) = of_int 8106479329266893 * 2 powi (2 - 52)"
    by (rule round_mag_eq) simp_all
  then show ?thesis by (simp add: py_float_def float_of_mag_def overflow_threshold_def)
qed


lemma py_float_150: "py_float 150 = Finite False 150"
proof -
  have "round_mag 150 = 150"
    by (rule round_mag_exact [where e = 7 and m = "150 * 2 ^ 45"]) simp_all
  then show ?thesis by (simp add: py_float_def float_of_mag_def overflow_threshold_def)
qed

lemma py_float_100: "py_float 100 = Finite False 100"
proof -
  have "round_mag 100 = 100"
    by (rule round_mag_exact [where e = 6 and m = "100 * 2 ^ 46"]) simp_all
  then show ?thesis by (simp add: py_float_def float_of_mag_def overflow_threshold_def)
qed

lemma py_float_1: "py_float 1 = Finite False 1"
proof -
  have "round_mag 1 = 1"
    by (rule round_mag_exact [where e = 0 and m = "2 ^ 52"]) simp_all
  then show ?thesis by (simp add: py_float_def float_of_mag_def overflow_threshold_def)
qed


lemma mul_100_150: "float_mul (Finite False 100) (Finite False 150) = Finite False 15000"
proof -
  have "round_mag (100 * 150) = 100 * 150"
    by (rule round_mag_exact [where e = 13 and m = "15000 * 2 ^ 39"]) simp_all
  then show ?thesis by (simp add: float_of_mag_def overflow_threshold_def)
qed

lemma format_f_Finite:
  assumes "\<bar>m * 10 ^ p - of_int (int k)\<bar> < 1 / 2"
  shows "format_f g p (Finite s m) =
           (if s then ''-'' else '''')
           @ (if g then group3 (digits (k div 10 ^ p)) else digits (k div 10 ^ p))
           @ (if p = 0 then '''' else ''.'' @ zero_pad p (digits (k mod 10 ^ p)))"
proof -
  have r: "round_half_even (m * 10 ^ p) = int k" by (rule round_half_even_unique [OF assms])
  have "fixed_point g p m = (if g then group3 (digits (k div 10 ^ p)) else digits (k div 10 ^ p))
           @ (if p = 0 then '''' else ''.'' @ zero_pad p (digits (k mod 10 ^ p)))"
    unfolding fixed_point_def Let_def r nat_int by (rule refl)
  then show ?thesis by (simp add: format_f_def)
qed

lemma replicate_3: "replicate 3 x = [x, x, x]"
  by (simp add: numeral_3_eq_3)

lemma fmt_100: "format_f False 2 (Finite False 100) = ''100.00''"
  by (subst format_f_Finite [where k = 10000]) (simp_all add: digits.simps digit_char_def zero_pad_def replicate_3)



lemma fmt_15000: "format_f True 2 (Finite False 15000) = ''15,000.00''"
  by (subst format_f_Finite [where k = 1500000]) (simp_all add: digits.simps digit_char_def zero_pad_def group3.simps)

lemma fmt_150: "format_f False 4 (Finite False 150) = ''150.0000''"
  by (subst format_f_Finite [where k = 1500000]) (simp_all add: digits.simps digit_char_def zero_pad_def replicate_3)

lemma fmt_inf: "format_f True 2 (Infinity False) = ''inf''"
  by (simp add: format_f_def)

subsection \<open>The shape of a formatted number\<close>

lemma length_digits: "n < 10 ^ p \<Longrightarrow> 0 < p \<Longrightarrow> length (digits n) \<le> p"
proof (induction n arbitrary: p rule: digits.induct)
  case (1 n)
  show ?case
  proof (cases "n < 10")
    case True
    then show ?thesis using "1.prems" by (simp add: digits.simps)
  next
    case False
    obtain q where p: "p = Suc q" using "1.prems"(2) by (cases p) auto
    have q: "0 < q" using False "1.prems"(1) p by (cases q) auto
    have "n div 10 < 10 ^ q" using "1.prems"(1) p by (simp add: less_mult_imp_div_less)
    from "1.IH" [OF False this q] show ?thesis using False p by (simp add: digits.simps [of n])
  qed
qed

lemma digit_char_decimal: "d < 10 \<Longrightarrow> digit_char d \<in> set ''0123456789''"
  unfolding digit_char_def by (rule nth_mem) simp

lemma set_digits: "set (digits n) \<subseteq> set ''0123456789''"
proof (induction n rule: digits.induct)
  case (1 n)
  show ?case
  proof (cases "n < 10")
    case True
    then show ?thesis using digit_char_decimal [of n] by (simp add: digits.simps [of n])
  next
    case False
    have "n mod 10 < 10" by simp
    from digit_char_decimal [OF this] "1.IH" [OF False] False show ?thesis
      by (simp add: digits.simps [of n])
  qed
qed

lemma format_f_decimals:
  assumes "0 < p"
  shows "\<exists>w f. format_f g p (Finite s m) = (if s then ''-'' else '''') @ w @ ''.'' @ f
               \<and> length f = p \<and> set f \<subseteq> set ''0123456789''"
proof -
  define k where "k = nat (round_half_even (m * 10 ^ p))"
  define f where "f = zero_pad p (digits (k mod 10 ^ p))"
  define w where "w = (if g then group3 (digits (k div 10 ^ p)) else digits (k div 10 ^ p))"
  have "k mod 10 ^ p < 10 ^ p" by simp
  then have l: "length (digits (k mod 10 ^ p)) \<le> p" using assms by (rule length_digits)
  then have 1: "length f = p" by (simp add: f_def zero_pad_def)
  have 2: "set f \<subseteq> set ''0123456789''"
    using set_digits [of "k mod 10 ^ p"] by (auto simp: f_def zero_pad_def)
  have 3: "format_f g p (Finite s m) = (if s then ''-'' else '''') @ w @ ''.'' @ f"
    using assms by (simp add: format_f_def fixed_point_def Let_def k_def f_def w_def)
  from 1 2 3 show ?thesis by blast
qed

text \<open>
  Grouping only adds commas, one for every three digits before the last three.
\<close>

lemma group3_keeps_digits:
  "filter (\<lambda>c. c \<noteq> CHR '','') (group3 ds) = filter (\<lambda>c. c \<noteq> CHR '','') ds"
proof (induction ds rule: group3.induct)
  case (1 ds)
  show ?case
  proof (cases "length ds \<le> 3")
    case True
    then show ?thesis by (simp add: group3.simps [of ds])
  next
    case False
    have "filter (\<lambda>c. c \<noteq> CHR '','') (group3 ds)
          = filter (\<lambda>c. c \<noteq> CHR '','') (take (length ds - 3) ds)
            @ filter (\<lambda>c. c \<noteq> CHR '','') (drop (length ds - 3) ds)"
      using False "1.IH" [OF False] by (simp add: group3.simps [of ds])
    also have "\<dots> = filter (\<lambda>c. c \<noteq> CHR '','') (take (length ds - 3) ds @ drop (length ds - 3) ds)"
      by (simp only: filter_append)
    finally show ?thesis by simp
  qed
qed

lemma length_group3: "length (group3 ds) = length ds + (length ds - 1) div 3"
proof (induction ds rule: group3.induct)
  case (1 ds)
  show ?case
  proof (cases "length ds \<le> 3")
    case True
    then show ?thesis by (simp add: group3.simps [of ds])
  next
    case False
    then have "length (group3 ds) = length (group3 (take (length ds - 3) ds)) + 4"
      by (simp add: group3.simps [of ds])
    also have "\<dots> = (length ds - 3) + (length ds - 3 - 1) div 3 + 4"
      using "1.IH" [OF False] False by simp
    also have "\<dots> = length ds + (length ds - 1) div 3"
      using False by (simp add: not_le)
    finally show ?thesis .
  qed
qed

lemma fmt_1234567: "format_f True 2 (Finite False (1234567891 / 1000)) = ''1,234,567.89''"
  by (subst format_f_Finite [where k = 123456789])
     (simp_all add: digits.simps digit_char_def zero_pad_def group3.simps)

text \<open>A tie goes to the even digit: \<open>format(0.125, ".2f")\<close> is \<open>0.12\<close>.\<close>

lemma fmt_tie: "format_f False 2 (Finite False (1 / 8)) = ''0.12''"
proof -
  have "\<lfloor>25 / 2 :: rat\<rfloor> = 12" by (rule floor_unique) simp_all
  then have "round_half_even (1 / 8 * 10 ^ 2) = 12" by (simp add: round_half_even_def)
  then show ?thesis
    by (simp add: format_f_def fixed_point_def digits.simps digit_char_def zero_pad_def)
qed

section \<open>The rate lookup\<close>

text \<open>The lookup fails in the ways the specification lists, and in no other way.\<close>

lemma lookup_fails_iff:
  "lookup_fails rt target_currency e \<longleftrightarrow> fetch_rate rt target_currency = Inl e"
proof
  assume "lookup_fails rt target_currency e"
  then show "fetch_rate rt target_currency = Inl e"
    by cases (simp_all add: fetch_rate_def)
next
  assume "fetch_rate rt target_currency = Inl e"
  then show "lookup_fails rt target_currency e"
    by (auto simp: fetch_rate_def split: sum.splits intro: lookup_fails.intros)
qed

lemma fetch_rate_Inr_iff:
  "fetch_rate rt target_currency = Inr rate \<longleftrightarrow>
     (\<exists>body kvs rate_kvs.
        http_get rt (rate_url target_currency) = Inr body \<and>
        json_loads rt body = Inr (PDict kvs) \<and>
        map_of kvs ''rates'' = Some (PDict rate_kvs) \<and>
        map_of rate_kvs target_currency = Some rate)"
  by (auto simp: fetch_rate_def py_getitem_def split: sum.splits pyval.splits option.splits)

lemma get_exchange_rate_failure:
  assumes "fetch_rate rt target_currency = Inl e"
  shows "get_exchange_rate rt target_currency =
           ([UrlOpen (rate_url target_currency)],
            PFloat (if target_currency = ''CNY'' then py_float (36 / 5)
                    else if target_currency = ''JPY'' then py_float 150 else py_float 1),
            Some (fail_prefix @ str_exn rt e @ fail_middle
                  @ str_float rt (if target_currency = ''CNY'' then py_float (36 / 5)
                                  else if target_currency = ''JPY'' then py_float 150
                                  else py_float 1)
                  @ fail_suffix))"
  using assms by (simp add: get_exchange_rate_def default_rates_def Let_def)

lemma get_exchange_rate_success:
  assumes "fetch_rate rt target_currency = Inr rate"
  shows "get_exchange_rate rt target_currency = ([UrlOpen (rate_url target_currency)], rate, None)"
  using assms by (simp add: get_exchange_rate_def)

lemma offline_fails: "lookup_fails runtime_offline ''JPY'' (External ''timed out'')"
  by (rule network_failure) (simp add: runtime_offline_def)

text \<open>
  Claim C2. Whatever the target currency and however the live lookup fails (a network
  error or a timeout, malformed JSON, a missing key), \<open>get_exchange_rate\<close> returns the
  default rate of the table, 7.2 for CNY, 150.0 for JPY and 1.0 for every other currency,
  and an error message made of the text of the exception and of the text of the default
  rate used, between the fixed parts of line 49.
\<close>

theorem lookup_failure_returns_fallback:
  assumes "lookup_fails rt target_currency e"
  shows "get_exchange_rate rt target_currency =
           ([UrlOpen (rate_url target_currency)],
            PFloat (if target_currency = ''CNY'' then py_float (36 / 5)
                    else if target_currency = ''JPY'' then py_float 150 else py_float 1),
            Some (fail_prefix @ str_exn rt e @ fail_middle
                  @ str_float rt (if target_currency = ''CNY'' then py_float (36 / 5)
                                  else if target_currency = ''JPY'' then py_float 150
                                  else py_float 1)
                  @ fail_suffix))"
  using assms by (simp add: lookup_fails_iff get_exchange_rate_failure)

text \<open>The request for JPY times out: the rate is 150.0 and the message says so.\<close>

theorem lookup_failure_returns_fallback_witness:
  "lookup_fails runtime_offline ''JPY'' (External ''timed out'') \<and>
   get_exchange_rate runtime_offline ''JPY'' =
     ([UrlOpen ''https://api.exchangerate.host/latest?base=USD&symbols=JPY''],
      PFloat (Finite False 150),
      Some (fail_prefix @ ''timed out'' @ fail_middle @ ''150.0'' @ fail_suffix))"
  using lookup_failure_returns_fallback [OF offline_fails] offline_fails
  by (simp add: py_float_150 rate_url_def runtime_offline_def example_str_exn_def
      example_str_float_def py_float_7_2)

text \<open>
  Claim C4, as the specification states it: a successful lookup returns the value under
  the requested currency inside \<open>rates\<close> with no error message, and every body that is not
  of the shape \<open>{"rates": {"<CODE>": <float>}}\<close> is treated as a failure. The second half
  fails: the body \<open>{"rates": {"CNY": "7.1"}}\<close> holds a string where the float should be,
  and the string is returned as the rate, with no error message.
\<close>

theorem body_with_string_rate_counterexample:
  "\<not> float_rate_shape (json_rates ''CNY'' (PStr ''7.1'')) ''CNY'' \<and>
   get_exchange_rate (runtime_online (json_rates ''CNY'' (PStr ''7.1''))) ''CNY'' =
     ([UrlOpen (rate_url ''CNY'')], PStr ''7.1'', None)"
  by (simp add: float_rate_shape_def json_rates_def get_exchange_rate_def fetch_rate_def
      runtime_online_def py_getitem_def)

text \<open>
  Claim C4, amended. \<open>get_exchange_rate\<close> returns a rate with no error message exactly
  when the request returns a body, the body parses to a dictionary, the dictionary has a
  dictionary under \<open>rates\<close>, and that one has the requested currency as a key; the rate is
  the value under that key, whatever its type. Every other body is treated as a failure.
\<close>

theorem successful_lookup_returns_listed_rate:
  "get_exchange_rate rt target_currency = ([UrlOpen (rate_url target_currency)], rate, None) \<longleftrightarrow>
     (\<exists>body kvs rate_kvs.
        http_get rt (rate_url target_currency) = Inr body \<and>
        json_loads rt body = Inr (PDict kvs) \<and>
        map_of kvs ''rates'' = Some (PDict rate_kvs) \<and>
        map_of rate_kvs target_currency = Some rate)"
proof -
  have "get_exchange_rate rt target_currency = ([UrlOpen (rate_url target_currency)], rate, None)
        \<longleftrightarrow> fetch_rate rt target_currency = Inr rate"
    by (cases "fetch_rate rt target_currency") (simp_all add: get_exchange_rate_def Let_def)
  then show ?thesis by (simp only: fetch_rate_Inr_iff)
qed

text \<open>
  Claim C9, as the specification states it: \<open>get_exchange_rate\<close> never raises and
  returns a rate that is strictly positive. The rate is not always positive: the body
  \<open>{"rates": {"CNY": -1.0}}\<close> is returned as the rate \<open>-1.0\<close> with no error message.
\<close>

theorem negative_rate_counterexample:
  "get_exchange_rate (runtime_online (json_rates ''CNY'' (PFloat (Finite True 1)))) ''CNY'' =
     ([UrlOpen (rate_url ''CNY'')], PFloat (Finite True 1), None)
   \<and> \<not> positive_rate (PFloat (Finite True 1))"
  by (simp add: get_exchange_rate_def fetch_rate_def runtime_online_def json_rates_def
      py_getitem_def)

text \<open>
  Claim C9, amended. For every string and every outcome of the request, of the parsing
  and of the two subscripts, \<open>get_exchange_rate\<close> returns a rate and an error message:
  when the \<open>try\<close> raises, the rate is 7.2, 150.0 or 1.0, which are strictly positive, and
  there is a message; when it does not, the rate is the value found in the body, which
  nothing checks, and there is no message.
\<close>

theorem get_exchange_rate_always_returns:
  "(case fetch_rate rt target_currency of
      Inr rate \<Rightarrow>
        get_exchange_rate rt target_currency = ([UrlOpen (rate_url target_currency)], rate, None)
    | Inl e \<Rightarrow>
        (\<exists>d m. get_exchange_rate rt target_currency
                  = ([UrlOpen (rate_url target_currency)], PFloat d, Some m)
               \<and> (d = py_float (36 / 5) \<or> d = py_float 150 \<or> d = py_float 1)
               \<and> positive_rate (PFloat d)))"
proof (cases "fetch_rate rt target_currency")
  case (Inr rate)
  then show ?thesis by (simp add: get_exchange_rate_success)
next
  case (Inl e)
  have "positive_rate (PFloat (py_float (36 / 5)))" "positive_rate (PFloat (py_float 150))"
    "positive_rate (PFloat (py_float 1))"
    by (simp_all add: py_float_7_2 py_float_150 py_float_1)
  then show ?thesis
    using Inl by (simp add: get_exchange_rate_failure)
qed

section \<open>The page\<close>

lemma selectbox_currency:
  "selectbox currency_options i = (if i = 1 then ''JPY'' else ''CNY'')"
  by (cases i) (auto simp: selectbox_def currency_options_def)

lemma fail_prefix_nonempty: "fail_prefix \<noteq> []"
  by (simp add: fail_prefix_def)

lemma py_format_f_number:
  assumes "as_float rate = Inr y"
  shows "py_format_f p rate = Inr (format_f False p y)"
  using assms by (cases rate) (simp_all add: py_format_f_def as_float_def)

lemma convert_renders:
  assumes "get_exchange_rate rt target_currency = (sent, rate, error_msg)"
    and "as_float rate = Inr y"
    and "target_currency = ''CNY'' \<or> target_currency = ''JPY''"
  shows "convert rt target_currency usd_amount =
           ([Spinner spinner_text] @ sent
            @ (case error_msg of None \<Rightarrow> [] | Some m \<Rightarrow> if m = [] then [] else [Warning m])
            @ [Success success_text,
               Write (usd_label @ ''$'' @ format_f False 2 usd_amount),
               Write (rate_label @ ''1 USD = '' @ format_f False 4 y @ '' '' @ target_currency),
               Write (''**'' @ (if target_currency = ''CNY'' then name_cny else name_jpy)
                      @ amount_label @ yen_sign @ format_f True 2 (float_mul usd_amount y))],
            None)"
  using assms(3)
  by (auto simp: convert_def assms(1) py_mul_def assms(2) py_format_f_number [OF assms(2)]
      currency_info_def Let_def)

lemma main_renders:
  assumes "\<not> float_lt_zero (amount inp)" and "clicked inp"
    and "get_exchange_rate rt (selectbox currency_options (selected inp)) = (sent, rate, error_msg)"
    and "as_float rate = Inr y"
  shows "main rt inp =
           (page_widgets @ [Button button_label, Spinner spinner_text] @ sent
            @ (case error_msg of None \<Rightarrow> [] | Some m \<Rightarrow> if m = [] then [] else [Warning m])
            @ [Success success_text,
               Write (usd_label @ ''$'' @ format_f False 2 (amount inp)),
               Write (rate_label @ ''1 USD = '' @ format_f False 4 y @ '' ''
                      @ selectbox currency_options (selected inp)),
               Write (''**''
                      @ (if selectbox currency_options (selected inp) = ''CNY'' then name_cny
                         else name_jpy)
                      @ amount_label @ yen_sign @ format_f True 2 (float_mul (amount inp) y))],
            None)"
proof -
  have c: "selectbox currency_options (selected inp) = ''CNY''
           \<or> selectbox currency_options (selected inp) = ''JPY''"
    by (simp add: selectbox_currency)
  show ?thesis
    using assms(1,2) by (simp add: main_def Let_def convert_renders [OF assms(3,4) c])
qed

text \<open>
  Claim C3. For every amount below zero the run shows the validation error after the
  widgets of the page and stops: it sends no request (the result does not depend on the
  runtime, and no \<open>UrlOpen\<close> is among its events), it computes no conversion, and it
  shows no button and no result.
\<close>

theorem negative_amount_stops_the_run:
  assumes "float_lt_zero (amount inp)"
  shows "main rt inp = (page_widgets @ [ErrorBox negative_error], None)
         \<and> UrlOpen url \<notin> set (fst (main rt inp))
         \<and> Success s \<notin> set (fst (main rt inp))"
  using assms by (simp add: main_def Let_def page_widgets_def)

text \<open>The amount \<open>-5.00\<close>, with the button taken as clicked.\<close>

theorem negative_amount_stops_the_run_witness:
  "float_lt_zero (Finite True 5)
   \<and> main runtime_offline \<lparr>selected = 0, amount = Finite True 5, clicked = True\<rparr>
       = (page_widgets @ [ErrorBox negative_error], None)"
  using negative_amount_stops_the_run
          [of "\<lparr>selected = 0, amount = Finite True 5, clicked = True\<rparr>" runtime_offline]
  by simp

text \<open>
  Claim C5. Whenever \<open>get_exchange_rate\<close> returns an error message (the amount is not
  negative and the button was clicked), the message is shown as a warning, the rate
  returned is a float, and the run goes on to the success message and the three result
  lines computed with that rate; it ends without an exception.
\<close>

theorem lookup_failure_still_converts:
  assumes "\<not> float_lt_zero (amount inp)" and "clicked inp"
    and "get_exchange_rate rt (selectbox currency_options (selected inp)) = (sent, rate, Some m)"
  shows "\<exists>d. rate = PFloat d \<and>
           main rt inp =
             (page_widgets @ [Button button_label, Spinner spinner_text] @ sent
              @ [Warning m,
                 Success success_text,
                 Write (usd_label @ ''$'' @ format_f False 2 (amount inp)),
                 Write (rate_label @ ''1 USD = '' @ format_f False 4 d @ '' ''
                        @ selectbox currency_options (selected inp)),
                 Write (''**''
                        @ (if selectbox currency_options (selected inp) = ''CNY'' then name_cny
                           else name_jpy)
                        @ amount_label @ yen_sign @ format_f True 2 (float_mul (amount inp) d))],
              None)"
proof -
  from assms(3) obtain d where r: "rate = PFloat d" and m: "m \<noteq> []"
    by (auto simp: get_exchange_rate_def Let_def fail_prefix_nonempty split: sum.splits)
  have a: "as_float rate = Inr d" by (simp add: r as_float_def)
  show ?thesis
    using main_renders [OF assms(1,2,3) a] r m by simp
qed

lemma offline_jpy:
  "get_exchange_rate runtime_offline ''JPY'' =
     ([UrlOpen (rate_url ''JPY'')], PFloat (Finite False 150),
      Some (fail_prefix @ ''timed out'' @ fail_middle @ ''150.0'' @ fail_suffix))"
  by (simp add: get_exchange_rate_def fetch_rate_def runtime_offline_def default_rates_def
      Let_def example_str_exn_def example_str_float_def py_float_150 py_float_7_2)

text \<open>The amount 100.00 in JPY with the network down: the rate 150.0 gives 15,000.00.\<close>

theorem lookup_failure_still_converts_witness:
  "\<not> float_lt_zero (Finite False 100) \<and>
   main runtime_offline \<lparr>selected = 1, amount = Finite False 100, clicked = True\<rparr> =
     (page_widgets
      @ [Button button_label, Spinner spinner_text, UrlOpen (rate_url ''JPY''),
         Warning (fail_prefix @ ''timed out'' @ fail_middle @ ''150.0'' @ fail_suffix),
         Success success_text,
         Write (usd_label @ ''$100.00''),
         Write (rate_label @ ''1 USD = 150.0000 JPY''),
         Write (''**'' @ name_jpy @ amount_label @ yen_sign @ ''15,000.00'')],
      None)"
  using lookup_failure_still_converts
          [of "\<lparr>selected = 1, amount = Finite False 100, clicked = True\<rparr>" runtime_offline
              "[UrlOpen (rate_url ''JPY'')]" "PFloat (Finite False 150)"
              "fail_prefix @ ''timed out'' @ fail_middle @ ''150.0'' @ fail_suffix"]
  by (simp add: selectbox_currency offline_jpy fmt_100 fmt_150 mul_100_150 fmt_15000
      del: float_mul.simps)






text \<open>
  Claim C7. The page is a function of the inputs and of what \<open>get_exchange_rate\<close>
  returns for the selected currency: two runs with the same inputs whose rate lookups
  return the same answer show the same page, whatever else differs in the runtimes.
\<close>

theorem same_rate_same_page:
  assumes "get_exchange_rate rt1 (selectbox currency_options (selected inp))
           = get_exchange_rate rt2 (selectbox currency_options (selected inp))"
  shows "main rt1 inp = main rt2 inp"
  using assms by (simp add: main_def convert_def Let_def)

text \<open>Two services that send different bodies with the same rate 7.1.\<close>

theorem same_rate_same_page_witness:
  "get_exchange_rate (runtime_online (json_rates ''CNY'' (PFloat (py_float (71 / 10))))) ''CNY''
     = get_exchange_rate
         ((runtime_online (json_rates ''CNY'' (PFloat (py_float (71 / 10)))))
            \<lparr>http_get := (\<lambda>url. Inr ''(the same body again)'')\<rparr>) ''CNY''
   \<and> main (runtime_online (json_rates ''CNY'' (PFloat (py_float (71 / 10)))))
         \<lparr>selected = 0, amount = Finite False 100, clicked = True\<rparr>
     = main ((runtime_online (json_rates ''CNY'' (PFloat (py_float (71 / 10)))))
               \<lparr>http_get := (\<lambda>url. Inr ''(the same body again)'')\<rparr>)
         \<lparr>selected = 0, amount = Finite False 100, clicked = True\<rparr>"
  using same_rate_same_page
          [of "runtime_online (json_rates ''CNY'' (PFloat (py_float (71 / 10))))"
              "\<lparr>selected = 0, amount = Finite False 100, clicked = True\<rparr>"
              "(runtime_online (json_rates ''CNY'' (PFloat (py_float (71 / 10)))))
                 \<lparr>http_get := (\<lambda>url. Inr ''(the same body again)'')\<rparr>"]
  by (simp add: selectbox_currency get_exchange_rate_def fetch_rate_def runtime_online_def
      json_rates_def py_getitem_def)


lemma as_float_not_KeyError: "as_float v = Inl e \<Longrightarrow> e \<noteq> KeyError k"
  by (cases v) (auto simp: as_float_def int_to_float_def split: if_splits)

lemma py_mul_not_KeyError: "py_mul x v = Inl e \<Longrightarrow> e \<noteq> KeyError k"
  by (auto simp: py_mul_def split: sum.splits dest: as_float_not_KeyError)

lemma py_format_f_not_KeyError: "py_format_f p v = Inl e \<Longrightarrow> e \<noteq> KeyError k"
  by (cases v) (auto simp: py_format_f_def split: sum.splits dest: as_float_not_KeyError)

lemma dom_currency_info: "dom currency_info = {''CNY'', ''JPY''}"
  by (auto simp: currency_info_def split: if_splits)

lemma convert_listed_not_KeyError:
  assumes "target_currency = ''CNY'' \<or> target_currency = ''JPY''"
  shows "snd (convert rt target_currency usd_amount) \<noteq> Some (KeyError k)"
  using assms
  by (auto simp: convert_def currency_info_def Let_def
      split: prod.splits sum.splits dest: py_mul_not_KeyError py_format_f_not_KeyError)

lemma main_not_KeyError: "snd (main rt inp) \<noteq> Some (KeyError k)"
proof -
  have c: "selectbox currency_options (selected inp) = ''CNY''
           \<or> selectbox currency_options (selected inp) = ''JPY''"
    by (simp add: selectbox_currency)
  show ?thesis
    using convert_listed_not_KeyError [OF c, of rt "amount inp" k]
    by (auto simp: main_def Let_def split: prod.splits)
qed

lemma convert_unlisted_raises:
  assumes "currency_info target_currency = None"
  shows "snd (convert rt target_currency usd_amount) \<noteq> None"
  using assms by (simp add: convert_def Let_def split: prod.splits sum.splits)

lemma convert_unlisted_fallback:
  assumes "currency_info target_currency = None" and "fetch_rate rt target_currency = Inl e"
  shows "fst (snd (get_exchange_rate rt target_currency)) = PFloat (py_float 1)"
    and "snd (convert rt target_currency usd_amount) = Some (KeyError target_currency)"
proof -
  from assms(1) have n: "target_currency \<noteq> ''CNY''" "target_currency \<noteq> ''JPY''"
    by (auto simp: currency_info_def)
  show "fst (snd (get_exchange_rate rt target_currency)) = PFloat (py_float 1)"
    using n by (simp add: get_exchange_rate_failure [OF assms(2)])
  show "snd (convert rt target_currency usd_amount) = Some (KeyError target_currency)"
    using n assms(1)
    by (simp add: convert_def get_exchange_rate_failure [OF assms(2)] py_mul_def as_float_def)
qed

text \<open>
  Claim C10. \<open>currency_info\<close> has exactly the keys CNY and JPY. The selector returns
  one of them, so a run never ends with a \<open>KeyError\<close>, and the default rate of the
  selected currency is always in the table. For any other currency code the body of the
  button never ends normally; when the lookup fails, \<open>get_exchange_rate\<close> still answers
  with the rate 1.0, and the run ends with the \<open>KeyError\<close> of line 98.
\<close>

theorem rendering_needs_a_listed_currency:
  "dom currency_info = {''CNY'', ''JPY''}
   \<and> selectbox currency_options i \<in> dom currency_info
   \<and> default_rates (selectbox currency_options i) \<noteq> None
   \<and> snd (main rt inp) \<noteq> Some (KeyError k)
   \<and> (target_currency \<notin> dom currency_info \<longrightarrow>
        snd (convert rt target_currency usd_amount) \<noteq> None
        \<and> (fetch_rate rt target_currency = Inl e \<longrightarrow>
             fst (snd (get_exchange_rate rt target_currency)) = PFloat (py_float 1)
             \<and> snd (convert rt target_currency usd_amount) = Some (KeyError target_currency)))"
proof -
  have 1: "selectbox currency_options i \<in> dom currency_info"
    by (simp add: dom_currency_info selectbox_currency)
  have 2: "default_rates (selectbox currency_options i) \<noteq> None"
    by (simp add: selectbox_currency default_rates_def)
  have 3: "target_currency \<notin> dom currency_info \<longrightarrow>
        snd (convert rt target_currency usd_amount) \<noteq> None
        \<and> (fetch_rate rt target_currency = Inl e \<longrightarrow>
             fst (snd (get_exchange_rate rt target_currency)) = PFloat (py_float 1)
             \<and> snd (convert rt target_currency usd_amount) = Some (KeyError target_currency))"
    using convert_unlisted_raises [of target_currency rt usd_amount]
      convert_unlisted_fallback(1) [of target_currency rt e]
      convert_unlisted_fallback(2) [of target_currency rt e usd_amount]
    by (auto simp: domIff)
  from dom_currency_info 1 2 3 main_not_KeyError [of rt inp k] show ?thesis by blast
qed

text \<open>The currency EUR with the network down.\<close>

theorem rendering_needs_a_listed_currency_witness:
  "''EUR'' \<notin> dom currency_info
   \<and> fetch_rate runtime_offline ''EUR'' = Inl (External ''timed out'')
   \<and> fst (snd (get_exchange_rate runtime_offline ''EUR'')) = PFloat (Finite False 1)
   \<and> snd (convert runtime_offline ''EUR'' (Finite False 100)) = Some (KeyError ''EUR'')"
proof -
  have a: "''EUR'' \<notin> dom currency_info" by (simp add: dom_currency_info)
  have b: "fetch_rate runtime_offline ''EUR'' = Inl (External ''timed out'')"
    by (simp add: fetch_rate_def runtime_offline_def)
  from rendering_needs_a_listed_currency
         [where target_currency = "''EUR''" and rt = runtime_offline
            and usd_amount = "Finite False 100" and e = "External ''timed out''"] a b
  show ?thesis by (simp add: py_float_1)
qed

lemma round_mag_within_tol:
  assumes "q = 0 \<or> 2 powi (- 1022) \<le> q"
  shows "\<bar>round_mag q - q\<bar> \<le> \<bar>q\<bar> / 10 ^ 9"
proof (cases "q = 0")
  case True
  then show ?thesis by (simp add: round_mag_def)
next
  case False
  with assms have q: "2 powi (- 1022) \<le> q" by simp
  have pos: "0 < q" using q by (rule less_le_trans [rotated]) simp
  have "\<bar>round_mag q - q\<bar> \<le> q / 2 ^ 53" by (rule round_mag_error [OF q])
  also have "\<dots> \<le> q / 10 ^ 9" using pos by (intro divide_left_mono) simp_all
  finally show ?thesis using pos by simp
qed

text \<open>
  Claim C1, as the specification states it: for every amount \<open>a \<ge> 0\<close> and every rate
  \<open>r > 0\<close> the converted amount is \<open>a * r\<close> within the relative tolerance \<open>1e-9\<close>.
  The product of two floats overflows: the amount \<open>2.0 ** 1023\<close> with the default rate
  7.2 (the network is down) gives the converted amount \<open>inf\<close>, which the page shows.
\<close>

theorem huge_amount_counterexample:
  "\<not> float_lt_zero huge_amount
   \<and> main runtime_offline \<lparr>selected = 0, amount = huge_amount, clicked = True\<rparr> =
       (page_widgets
        @ [Button button_label, Spinner spinner_text, UrlOpen (rate_url ''CNY''),
           Warning (fail_prefix @ ''timed out'' @ fail_middle @ ''7.2'' @ fail_suffix),
           Success success_text,
           Write (usd_label @ ''$'' @ format_f False 2 huge_amount),
           Write (rate_label @ ''1 USD = 7.2000 CNY''),
           Write (''**'' @ name_cny @ amount_label @ yen_sign @ ''inf'')],
        None)
   \<and> py_mul huge_amount (PFloat (py_float (36 / 5))) = Inr (Infinity False)
   \<and> \<not> within_rel_tol (Infinity False) (float_val huge_amount * float_val (py_float (36 / 5)))"
proof -
  have a: "\<not> float_lt_zero huge_amount" by (simp add: huge_amount_def)
  have m: "float_mul huge_amount (py_float (36 / 5)) = Infinity False"
    by (simp add: huge_amount_def py_float_7_2 float_of_mag_def overflow_threshold_def)
  have f: "format_f False 4 (py_float (36 / 5)) = ''7.2000''"
    unfolding py_float_7_2
    by (subst format_f_Finite [where k = 72000])
       (simp_all add: digits.simps digit_char_def zero_pad_def replicate_3)
  have g: "get_exchange_rate runtime_offline ''CNY'' =
     ([UrlOpen (rate_url ''CNY'')], PFloat (py_float (36 / 5)),
      Some (fail_prefix @ ''timed out'' @ fail_middle @ ''7.2'' @ fail_suffix))"
    by (simp add: get_exchange_rate_def fetch_rate_def runtime_offline_def default_rates_def
      Let_def example_str_exn_def example_str_float_def)
  have "main runtime_offline \<lparr>selected = 0, amount = huge_amount, clicked = True\<rparr> =
       (page_widgets
        @ [Button button_label, Spinner spinner_text, UrlOpen (rate_url ''CNY''),
           Warning (fail_prefix @ ''timed out'' @ fail_middle @ ''7.2'' @ fail_suffix),
           Success success_text,
           Write (usd_label @ ''$'' @ format_f False 2 huge_amount),
           Write (rate_label @ ''1 USD = 7.2000 CNY''),
           Write (''**'' @ name_cny @ amount_label @ yen_sign @ ''inf'')],
        None)"
    using main_renders
            [of "\<lparr>selected = 0, amount = huge_amount, clicked = True\<rparr>" runtime_offline
                "[UrlOpen (rate_url ''CNY'')]" "PFloat (py_float (36 / 5))"
                "Some (fail_prefix @ ''timed out'' @ fail_middle @ ''7.2'' @ fail_suffix)"
                "py_float (36 / 5)"]
    by (simp add: a selectbox_currency g as_float_def m f fmt_inf fail_prefix_nonempty
        del: float_mul.simps)
  moreover have "py_mul huge_amount (PFloat (py_float (36 / 5))) = Inr (Infinity False)"
    by (simp add: py_mul_def as_float_def m del: float_mul.simps)
  moreover have "\<not> within_rel_tol (Infinity False) x" for x
    by (simp add: within_rel_tol_def)
  ultimately show ?thesis using a by blast
qed

text \<open>
  Claim C1, amended. For every finite amount \<open>a \<ge> 0\<close> and every finite float rate
  \<open>r > 0\<close> whose exact product is zero or lies in the range of the normal binary64
  numbers (from \<open>2 ^ - 1022\<close> up to the overflow threshold), the converted amount the
  page shows is a finite float within the relative tolerance \<open>1e-9\<close> of \<open>a * r\<close>.
\<close>

theorem converted_amount_within_tolerance:
  assumes "amount inp = Finite False a" and "0 \<le> a" and "clicked inp"
    and "get_exchange_rate rt (selectbox currency_options (selected inp))
         = (sent, PFloat (Finite False r), error_msg)"
    and "0 < r"
    and "a * r = 0 \<or> 2 powi (- 1022) \<le> a * r"
    and "a * r < overflow_threshold"
  shows "\<exists>c shown.
           py_mul (amount inp) (PFloat (Finite False r)) = Inr c
           \<and> within_rel_tol c (a * r)
           \<and> main rt inp =
               (shown
                @ [Write (''**''
                          @ (if selectbox currency_options (selected inp) = ''CNY'' then name_cny
                             else name_jpy)
                          @ amount_label @ yen_sign @ format_f True 2 c)],
                None)"
proof -
  define c where "c = Finite False (round_mag (a * r))"
  have mul: "float_mul (amount inp) (Finite False r) = c"
    using assms(7) by (simp add: assms(1) float_of_mag_def c_def)
  have 1: "py_mul (amount inp) (PFloat (Finite False r)) = Inr c"
    by (simp add: py_mul_def as_float_def mul del: float_mul.simps)
  have 2: "within_rel_tol c (a * r)"
    using round_mag_within_tol [OF assms(6)] by (simp add: within_rel_tol_def c_def)
  have nz: "\<not> float_lt_zero (amount inp)" by (simp add: assms(1))
  have af: "as_float (PFloat (Finite False r)) = Inr (Finite False r)" by (simp add: as_float_def)
  have 3: "main rt inp =
             ((page_widgets @ [Button button_label, Spinner spinner_text] @ sent
               @ (case error_msg of None \<Rightarrow> [] | Some m \<Rightarrow> if m = [] then [] else [Warning m])
               @ [Success success_text,
                  Write (usd_label @ ''$'' @ format_f False 2 (amount inp)),
                  Write (rate_label @ ''1 USD = '' @ format_f False 4 (Finite False r) @ '' ''
                         @ selectbox currency_options (selected inp))])
              @ [Write (''**''
                        @ (if selectbox currency_options (selected inp) = ''CNY'' then name_cny
                           else name_jpy)
                        @ amount_label @ yen_sign @ format_f True 2 c)],
              None)"
    using main_renders [OF nz assms(3) assms(4) af] by (simp add: mul del: float_mul.simps)
  from 1 2 3 show ?thesis by blast
qed

text \<open>The amount 2.50 in JPY with the default rate 150.0.\<close>

theorem converted_amount_within_tolerance_witness:
  "(0 :: rat) \<le> 5 / 2
   \<and> (5 / 2 :: rat) * 150 < overflow_threshold
   \<and> (\<exists>c shown.
         py_mul (Finite False (5 / 2)) (PFloat (Finite False 150)) = Inr c
         \<and> within_rel_tol c (5 / 2 * 150)
         \<and> main runtime_offline \<lparr>selected = 1, amount = Finite False (5 / 2), clicked = True\<rparr> =
             (shown @ [Write (''**'' @ name_jpy @ amount_label @ yen_sign @ format_f True 2 c)],
              None))"
  using converted_amount_within_tolerance
          [of "\<lparr>selected = 1, amount = Finite False (5 / 2), clicked = True\<rparr>" "5 / 2"
              runtime_offline "[UrlOpen (rate_url ''JPY'')]" 150
              "Some (fail_prefix @ ''timed out'' @ fail_middle @ ''150.0'' @ fail_suffix)"]
  by (simp add: selectbox_currency offline_jpy overflow_threshold_def)

end
